theory Spec2Isabelle
  imports Complex_Main "HOL-Library.Sublist" "HOL-Library.Multiset"
begin

section \<open>The adaptive interview session of app.py\<close>

text \<open>
  The application is a Streamlit script: every user interaction runs the whole script once,
  top to bottom, against the mutable \<open>st.session_state\<close>. The model is a function
  \<open>script\<close> that takes the session state and the text submitted to the chat input (if
  any) and returns the state the run leaves behind, how the run ended, and the calls it
  made to the two generative models. The models, the JSON parser, the question file and
  the random number generator are parameters. Rendering (\<open>st.markdown\<close>, progress bars)
  changes nothing the script reads back and is left out.
\<close>

subsection \<open>Strings\<close>

definition nl :: char where
  "nl = CHR 0x0A"

text \<open>\<open>str.lower()\<close> on the letters A to Z; no other character lowers to a letter of "start".\<close>

definition lower_char :: "char \<Rightarrow> char" where
  "lower_char c =
     (if (65::nat) \<le> of_char c \<and> of_char c \<le> (90::nat) then char_of (of_char c + (32::nat)) else c)"

definition lower :: "string \<Rightarrow> string" where
  "lower s = map lower_char s"

text \<open>Python's \<open>sub in s\<close> on strings: \<open>sub\<close> occurs in \<open>s\<close> as a contiguous run.\<close>

fun str_in :: "string \<Rightarrow> string \<Rightarrow> bool" where
  "str_in sub [] = (sub = [])"
| "str_in sub (c # cs) = (prefix sub (c # cs) \<or> str_in sub cs)"

text \<open>\<open>str\<close> of an integer, as an f-string prints it.\<close>

fun str_nat :: "nat \<Rightarrow> string" where
  "str_nat n = (if n < 10 then [''0123456789'' ! n]
                else str_nat (n div 10) @ [''0123456789'' ! (n mod 10)])"

definition str_int :: "int \<Rightarrow> string" where
  "str_int i = (if i < 0 then ''-'' @ str_nat (nat (- i)) else str_nat (nat i))"

subsection \<open>Data model\<close>

text \<open>An entry of interview_questions.json; \<open>rubric\<close> and \<open>hint\<close> are read with \<open>.get\<close>.\<close>

record question_record =
  question :: string
  rubric :: "string option"
  hint :: "string option"

text \<open>The dictionary \<open>{"score": ..., "justification": ...}\<close> an evaluation yields.\<close>

record evaluation_result =
  score :: int
  justification :: string

text \<open>An element of \<open>st.session_state.results\<close>.\<close>

record turn_record =
  asked :: string
  answer :: string
  evaluation :: evaluation_result

datatype role = User | Assistant

record message =
  role :: role
  content :: string

text \<open>The values of \<open>st.session_state.stage\<close>: 'welcome', 'interviewing', 'interview_finished'.\<close>

datatype stage = Welcome | Interviewing | Interview_finished

record session_state =
  stage :: stage
  q_index :: nat
  results :: "turn_record list"
  retry_attempt :: bool
  interview_questions :: "question_record list"
  messages :: "message list"
  report :: "string option"

subsection \<open>External collaborators\<close>

text \<open>A call that either raises (with the text of the exception) or returns.\<close>

datatype 'a outcome = Raises string | Returns 'a

text \<open>
  \<open>eval_model\<close> and \<open>report_model\<close> stand for \<open>generate_content(prompt)\<close> followed by
  \<open>response.text\<close>; \<open>json_loads\<close> for \<open>json.loads\<close> restricted to the shape the script
  reads (a score and a justification).
\<close>

record services =
  eval_model :: "string \<Rightarrow> string outcome"
  json_loads :: "string \<Rightarrow> evaluation_result outcome"
  report_model :: "string \<Rightarrow> string outcome"

datatype call = EvalCall string | ReportCall string

subsection \<open>Prompt templates\<close>

definition EVALUATION_PROMPT_TEMPLATE :: "string \<Rightarrow> string \<Rightarrow> string \<Rightarrow> string" where
  "EVALUATION_PROMPT_TEMPLATE q a r =
     [nl] @ ''You are an expert Excel Interview Evaluator. Your task is to analyze a candidate's answer to an interview question.''
   @ [nl] @ ''You must provide a numeric score from 1 to 5 and a brief justification for your score based on the provided rubric.''
   @ [nl] @ ''Your entire output must be a single, valid JSON object.''
   @ [nl]
   @ [nl] @ ''**Rubric:**''
   @ [nl] @ ''- 5: Excellent. The answer is accurate, complete, and demonstrates deep understanding.''
   @ [nl] @ ''- 4: Good. The answer is mostly correct but may have minor inaccuracies.''
   @ [nl] @ ''- 3: Satisfactory. The answer demonstrates a basic understanding but is incomplete or contains notable errors.''
   @ [nl] @ ''- 2: Poor. The answer is largely incorrect and shows a fundamental misunderstanding.''
   @ [nl] @ ''- 1: Very Poor. The answer is completely wrong or irrelevant.''
   @ [nl]
   @ [nl] @ ''**Interview Question:**''
   @ [nl] @ q
   @ [nl]
   @ [nl] @ ''**Candidate's Answer:**''
   @ [nl] @ a
   @ [nl]
   @ [nl] @ ''**Evaluation Rubric for this question:**''
   @ [nl] @ r
   @ [nl]"

definition FINAL_REPORT_PROMPT_TEMPLATE :: "string \<Rightarrow> string" where
  "FINAL_REPORT_PROMPT_TEMPLATE transcript =
     [nl] @ ''You are a helpful and constructive hiring manager, specializing in data roles.''
   @ [nl] @ ''Your task is to generate a final performance summary for a candidate who has just completed an Excel skills interview in Markdown format.''
   @ [nl]
   @ [nl] @ ''Based on the full transcript, provide a report with these sections:''
   @ [nl] @ ''1.  **Overall Summary:** A brief, 2-3 sentence paragraph summarizing the candidate's performance.''
   @ [nl] @ ''2.  **Strengths:** 2-3 bullet points highlighting what the candidate did well.''
   @ [nl] @ ''3.  **Areas for Improvement:** 2-3 bullet points with constructive feedback.''
   @ [nl] @ ''4.  **Final Recommendation:** A concluding sentence (e.g., \"Recommend for next round,\" \"Shows promise but needs more practice,\" \"Not a strong fit at this time\").''
   @ [nl]
   @ [nl] @ ''**Interview Transcript and Evaluations:**''
   @ [nl] @ transcript
   @ [nl]"

subsection \<open>evaluate_answer and generate_final_report\<close>

definition evaluation_error :: "string \<Rightarrow> evaluation_result" where
  "evaluation_error e =
     \<lparr>score = 0, justification = ''Error during evaluation. Details: '' @ e\<rparr>"

definition evaluate_answer ::
  "services \<Rightarrow> string \<Rightarrow> string \<Rightarrow> string \<Rightarrow> evaluation_result" where
  "evaluate_answer sv q a r =
     (let prompt = EVALUATION_PROMPT_TEMPLATE q a r in
      case eval_model sv prompt of
        Raises e \<Rightarrow> evaluation_error e
      | Returns text \<Rightarrow>
          (case json_loads sv text of
             Raises e \<Rightarrow> evaluation_error e
           | Returns v \<Rightarrow> v))"

text \<open>One turn of the transcript loop; \<open>i\<close> is the index \<open>enumerate\<close> supplies.\<close>

definition transcript_entry :: "nat \<Rightarrow> turn_record \<Rightarrow> string" where
  "transcript_entry i res =
     ''**Question '' @ str_nat (i + 1) @ '':** '' @ asked res @ [nl]
   @ ''**Candidate's Answer:** '' @ answer res @ [nl]
   @ ''**Score:** '' @ str_int (score (evaluation res)) @ ''/5'' @ [nl]
   @ ''**Justification:** '' @ justification (evaluation res) @ [nl, nl] @ ''---'' @ [nl, nl]"

definition transcript_of :: "turn_record list \<Rightarrow> string" where
  "transcript_of rs = concat (map (\<lambda>(i, res). transcript_entry i res) (enumerate 0 rs))"

definition report_prompt :: "turn_record list \<Rightarrow> string" where
  "report_prompt rs = FINAL_REPORT_PROMPT_TEMPLATE (transcript_of rs)"

definition generate_final_report :: "services \<Rightarrow> turn_record list \<Rightarrow> string" where
  "generate_final_report sv rs =
     (case report_model sv (report_prompt rs) of
        Raises e \<Rightarrow> ''Could not generate the final report due to an error.''
      | Returns text \<Rightarrow> text)"

subsection \<open>Session creation\<close>

text \<open>
  \<open>random.sample(population, k)\<close> of the Python standard library, by its selection from a
  shrinking pool: each draw \<open>j\<close> below the size of the pool yields \<open>pool[j]\<close>, whose slot is
  refilled with the last element of the pool. The draws of the random number generator are
  the parameter \<open>draws\<close> (a missing draw counts as 0). \<open>None\<close> is the \<open>ValueError\<close>
  raised when the sample is larger than the population.
\<close>

fun sample_pool :: "'a list \<Rightarrow> nat \<Rightarrow> nat list \<Rightarrow> 'a list" where
  "sample_pool pool 0 draws = []"
| "sample_pool pool (Suc k) draws =
     (if pool = [] then []
      else let j = (case draws of [] \<Rightarrow> 0 | d # ds \<Rightarrow> d mod length pool)
           in pool ! j # sample_pool (butlast (pool[j := last pool])) k (tl draws))"

definition random_sample :: "'a list \<Rightarrow> nat \<Rightarrow> nat list \<Rightarrow> 'a list option" where
  "random_sample population k draws =
     (if k \<le> length population then Some (sample_pool population k draws) else None)"

definition INTERVIEW_LENGTH :: nat where
  "INTERVIEW_LENGTH = 3"

definition welcome_message :: "nat \<Rightarrow> string" where
  "welcome_message n =
     ''Hello! I'm your adaptive AI interviewer.'' @ [nl, nl]
   @ ''**Here'' @ [CHR 0xE2, CHR 0x80, CHR 0x99] @ ''s how this will work:**'' @ [nl]
   @ ''1.  I will ask you a series of questions to assess your Excel skills.'' @ [nl]
   @ ''2.  If an answer isn't quite right, I may give you a hint and a chance to try again.'' @ [nl]
   @ ''3.  The interview will adapt based on your performance and may end early if a clear skill level is determined.'' @ [nl, nl]
   @ ''This session will have up to **'' @ str_nat n @ '' questions**. Ready? Type **'start'**.'' @ [nl]"

text \<open>
  The block run when \<open>'stage' not in st.session_state\<close>: \<open>interview_length\<close> is the
  constant \<open>INTERVIEW_LENGTH\<close>, \<open>full_question_list\<close> what \<open>load_questions()\<close> returned.
  \<open>None\<close> is an exception of \<open>random.sample\<close> leaving the block.
\<close>

definition new_session :: "nat \<Rightarrow> question_record list \<Rightarrow> nat list \<Rightarrow> session_state option" where
  "new_session interview_length full_question_list draws =
     (case (if length full_question_list > interview_length
            then random_sample full_question_list interview_length draws
            else Some full_question_list) of
        None \<Rightarrow> None
      | Some qs \<Rightarrow>
          Some \<lparr>stage = Welcome, q_index = 0, results = [], retry_attempt = False,
                interview_questions = qs,
                messages = [\<lparr>role = Assistant, content = welcome_message (length qs)\<rparr>],
                report = None\<rparr>)"

subsection \<open>One run of the script\<close>

text \<open>
  How a run ends: at the end of the file, by \<open>st.stop()\<close>, by \<open>st.rerun()\<close>, or by an
  uncaught \<open>IndexError\<close> of a list subscript (the mutations made before it stay).
\<close>

datatype ending = Completed | Stop | Rerun | IndexError

record run =
  final :: session_state
  ending :: ending
  calls :: "call list"

definition say :: "role \<Rightarrow> string \<Rightarrow> session_state \<Rightarrow> session_state" where
  "say r c s = s\<lparr>messages := messages s @ [\<lparr>role = r, content = c\<rparr>]\<rparr>"

text \<open>Lines 142 to 145: computed at the top of every run, from the results recorded so far.\<close>

definition average_score :: "turn_record list \<Rightarrow> rat" where
  "average_score rs =
     (if rs = [] then 0
      else of_int (sum_list (map (\<lambda>res. score (evaluation res)) rs)) / of_nat (length rs))"

definition seventy_five_percent_mark :: "nat \<Rightarrow> int" where
  "seventy_five_percent_mark total_questions = \<lceil>(of_nat total_questions :: rat) * (75 / 100)\<rceil>"

definition hint_response :: "string \<Rightarrow> string" where
  "hint_response h =
     ''That's not quite what I was looking for. Here's a hint: *'' @ h @ ''* '' @ [nl, nl]
   @ ''Why don't you try answering that question again?''"

definition early_stop_response :: string where
  "early_stop_response =
     ''Thank you for your time. Based on the responses so far, I have enough information to complete the assessment. I will now generate your performance report.''"

definition next_question_response :: "string \<Rightarrow> string" where
  "next_question_response q = ''Thank you. Here is the next question:'' @ [nl, nl] @ q"

definition final_question_response :: string where
  "final_question_response =
     ''Thank you, that was the final question. Please wait a moment while I generate your performance report.''"

text \<open>
  The branch \<open>stage == 'interviewing'\<close> (lines 183 to 223). \<open>total_questions\<close> and
  \<open>avg\<close> are the variables \<open>total_questions\<close> and \<open>average_score\<close> the script
  assigned at lines 138 to 145, before it read the input.
\<close>

definition answer_turn :: "services \<Rightarrow> nat \<Rightarrow> rat \<Rightarrow> string \<Rightarrow> session_state \<Rightarrow> run" where
  "answer_turn sv total_questions avg prompt s =
     (if q_index s < length (interview_questions s) then
        let current_q_data = interview_questions s ! q_index s;
            r = (case rubric current_q_data of None \<Rightarrow> [] | Some x \<Rightarrow> x);
            ev = evaluate_answer sv (question current_q_data) prompt r;
            cs = [EvalCall (EVALUATION_PROMPT_TEMPLATE (question current_q_data) prompt r)]
        in if score ev < 3 \<and> \<not> retry_attempt s then
             let s1 = s\<lparr>retry_attempt := True\<rparr>;
                 h = (case hint current_q_data of
                        None \<Rightarrow> ''Let's think about that from another angle.''
                      | Some x \<Rightarrow> x)
             in \<lparr>final = say Assistant (hint_response h) s1, ending = Completed, calls = cs\<rparr>
           else
             let s1 = s\<lparr>retry_attempt := False,
                        results := results s
                          @ [\<lparr>asked = question current_q_data, answer = prompt, evaluation = ev\<rparr>],
                        q_index := q_index s + 1\<rparr>
             in if int (q_index s1) \<ge> seventy_five_percent_mark total_questions
                   \<and> avg > 0 \<and> avg < 3 then
                  \<lparr>final = say Assistant early_stop_response (s1\<lparr>stage := Interview_finished\<rparr>),
                   ending = Rerun, calls = cs\<rparr>
                else if q_index s1 < total_questions then
                  \<lparr>final = say Assistant
                     (next_question_response (question (interview_questions s1 ! q_index s1))) s1,
                   ending = Completed, calls = cs\<rparr>
                else
                  \<lparr>final = say Assistant final_question_response (s1\<lparr>stage := Interview_finished\<rparr>),
                   ending = Rerun, calls = cs\<rparr>
      else \<lparr>final = s, ending = IndexError, calls = []\<rparr>)"

text \<open>
  The script from line 138 on. \<open>prompt\<close> is what \<open>st.chat_input\<close> returns: \<open>None\<close>
  when nothing was submitted; an empty string is falsy as well.
\<close>

definition script :: "services \<Rightarrow> session_state \<Rightarrow> string option \<Rightarrow> run" where
  "script sv s prompt =
     (let total_questions = length (interview_questions s);
          avg = average_score (results s)
      in if stage s = Interview_finished then
           (case report s of
              None \<Rightarrow>
                \<lparr>final = s\<lparr>report := Some (generate_final_report sv (results s))\<rparr>,
                 ending = Stop, calls = [ReportCall (report_prompt (results s))]\<rparr>
            | Some r \<Rightarrow> \<lparr>final = s, ending = Stop, calls = []\<rparr>)
         else
           (case prompt of
              None \<Rightarrow> \<lparr>final = s, ending = Completed, calls = []\<rparr>
            | Some p \<Rightarrow>
                if p = [] then \<lparr>final = s, ending = Completed, calls = []\<rparr>
                else
                  let s1 = say User p s
                  in if stage s1 = Welcome then
                       (if str_in ''start'' (lower p) then
                          let s2 = s1\<lparr>stage := Interviewing\<rparr>
                          in if interview_questions s2 = [] then
                               \<lparr>final = s2, ending = IndexError, calls = []\<rparr>
                             else
                               \<lparr>final = say Assistant (question (interview_questions s2 ! 0)) s2,
                                ending = Completed, calls = []\<rparr>
                        else \<lparr>final = s1, ending = Completed, calls = []\<rparr>)
                     else if stage s1 = Interviewing then
                       answer_turn sv total_questions avg p s1
                     else \<lparr>final = s1, ending = Completed, calls = []\<rparr>))"

text \<open>
  A user interaction: the run it triggers and, when that run ends in \<open>st.rerun()\<close>, the
  run that follows at once, with no input.
\<close>

definition interaction :: "services \<Rightarrow> session_state \<Rightarrow> string option \<Rightarrow> run" where
  "interaction sv s prompt =
     (let r = script sv s prompt
      in if ending r = Rerun then
           let r2 = script sv (final r) None
           in \<lparr>final = final r2, ending = ending r2, calls = calls r @ calls r2\<rparr>
         else r)"


text \<open>A sequence of runs, each with the services as they answer then and the input it gets.\<close>

fun runs :: "session_state \<Rightarrow> (services \<times> string option) list \<Rightarrow> session_state" where
  "runs s [] = s"
| "runs s ((sv, inp) # rest) = runs (final (script sv s inp)) rest"

subsection \<open>Notions used in the statements\<close>

text \<open>The evaluation the script obtains for an answer to the question at \<open>q_index\<close>.\<close>

definition current_evaluation :: "services \<Rightarrow> session_state \<Rightarrow> string \<Rightarrow> evaluation_result" where
  "current_evaluation sv s prompt =
     (let current_q_data = interview_questions s ! q_index s
      in evaluate_answer sv (question current_q_data) prompt
           (case rubric current_q_data of None \<Rightarrow> [] | Some x \<Rightarrow> x))"

text \<open>The hint of the question at \<open>q_index\<close>, or the fallback of \<open>.get('hint', ...)\<close>.\<close>

definition current_hint :: "session_state \<Rightarrow> string" where
  "current_hint s =
     (case hint (interview_questions s ! q_index s) of
        None \<Rightarrow> ''Let's think about that from another angle.''
      | Some x \<Rightarrow> x)"

definition scores :: "turn_record list \<Rightarrow> int list" where
  "scores rs = map (\<lambda>res. score (evaluation res)) rs"

text \<open>The answer is recorded (the \<open>else\<close> branch of line 188) rather than sent back with a hint.\<close>

definition accepted :: "services \<Rightarrow> session_state \<Rightarrow> string \<Rightarrow> bool" where
  "accepted sv s prompt = (\<not> score (current_evaluation sv s prompt) < 3 \<or> retry_attempt s)"

text \<open>The run took the early-stop branch: it closed the conversation with that branch's message.\<close>

definition early_stopped :: "run \<Rightarrow> bool" where
  "early_stopped r =
     (messages (final r) \<noteq> []
      \<and> last (messages (final r)) = \<lparr>role = Assistant, content = early_stop_response\<rparr>)"



definition session_inv :: "session_state \<Rightarrow> bool" where
  "session_inv s =
     (q_index s \<le> length (interview_questions s) \<and> length (results s) = q_index s)"


subsection \<open>Example data\<close>

definition example_bank :: "question_record list" where
  "example_bank =
     [\<lparr>question = ''What does VLOOKUP do?'', rubric = Some ''Mentions lookup by key.'',
       hint = Some ''Think of looking a value up in a table.''\<rparr>,
      \<lparr>question = ''What is a pivot table?'', rubric = None, hint = None\<rparr>,
      \<lparr>question = ''How do you freeze panes?'', rubric = Some ''View tab.'', hint = None\<rparr>,
      \<lparr>question = ''What is conditional formatting?'', rubric = None, hint = None\<rparr>,
      \<lparr>question = ''What does INDEX/MATCH do?'', rubric = None, hint = None\<rparr>]"

text \<open>Services whose evaluator gives every answer the score \<open>n\<close>.\<close>

definition grader :: "int \<Rightarrow> services" where
  "grader n =
     \<lparr>eval_model = (\<lambda>p. Returns ''{}''),
      json_loads = (\<lambda>t. Returns \<lparr>score = n, justification = ''ok''\<rparr>),
      report_model = (\<lambda>p. Returns ''Report.'')\<rparr>"

text \<open>Services whose evaluator call raises.\<close>

definition broken_grader :: services where
  "broken_grader =
     \<lparr>eval_model = (\<lambda>p. Raises ''timeout''),
      json_loads = (\<lambda>t. Returns \<lparr>score = 5, justification = ''ok''\<rparr>),
      report_model = (\<lambda>p. Returns ''Report.'')\<rparr>"

text \<open>The session over the first three questions of the bank, before any input.\<close>

definition example_session :: session_state where
  "example_session =
     \<lparr>stage = Welcome, q_index = 0, results = [], retry_attempt = False,
      interview_questions = take 3 example_bank,
      messages = [\<lparr>role = Assistant, content = welcome_message 3\<rparr>],
      report = None\<rparr>"



text \<open>The session created from the bank of five questions when the generator draws 4, 0, 1.\<close>

definition sampled_session :: session_state where
  "sampled_session =
     \<lparr>stage = Welcome, q_index = 0, results = [], retry_attempt = False,
      interview_questions = [example_bank ! 4, example_bank ! 0, example_bank ! 1],
      messages = [\<lparr>role = Assistant, content = welcome_message 3\<rparr>],
      report = None\<rparr>"

text \<open>
  The example session after two questions, each answered twice with score 2 (a hint, then
  acceptance).
\<close>

definition two_low :: session_state where
  "two_low =
     runs example_session
       [(grader 5, Some ''start''),
        (grader 2, Some ''a lookup''), (grader 2, Some ''a vertical lookup''),
        (grader 2, Some ''a table''), (grader 2, Some ''a summary table'')]"

definition low_results :: "turn_record list" where
  "low_results =
     [\<lparr>asked = ''What does VLOOKUP do?'', answer = ''a vertical lookup'',
       evaluation = \<lparr>score = 2, justification = ''ok''\<rparr>\<rparr>,
      \<lparr>asked = ''What is a pivot table?'', answer = ''a summary table'',
       evaluation = \<lparr>score = 2, justification = ''ok''\<rparr>\<rparr>]"

text \<open>That session after a third answer with score 5: after the run, and after its rerun.\<close>

definition early_finished :: session_state where
  "early_finished = final (script (grader 5) two_low (Some ''with the view tab''))"

definition reported :: session_state where
  "reported = final (interaction (grader 5) two_low (Some ''with the view tab''))"

text \<open>A session over an empty question file.\<close>

definition empty_session :: session_state where
  "empty_session =
     \<lparr>stage = Welcome, q_index = 0, results = [], retry_attempt = False,
      interview_questions = [],
      messages = [\<lparr>role = Assistant, content = welcome_message 0\<rparr>],
      report = None\<rparr>"

section \<open>Properties\<close>

subsection \<open>Basic facts about a run\<close>

lemma say_fields [simp]:
  "stage (say r c s) = stage s" "q_index (say r c s) = q_index s"
  "results (say r c s) = results s" "retry_attempt (say r c s) = retry_attempt s"
  "interview_questions (say r c s) = interview_questions s"
  "report (say r c s) = report s"
  "messages (say r c s) = messages s @ [\<lparr>role = r, content = c\<rparr>]"
  by (simp_all add: say_def)

lemma current_evaluation_say [simp]:
  "current_evaluation sv (say r c s) p = current_evaluation sv s p"
  by (simp add: current_evaluation_def)

lemma current_hint_say [simp]: "current_hint (say r c s) = current_hint s"
  by (simp add: current_hint_def)

lemma script_interviewing:
  "stage s = Interviewing \<Longrightarrow> p \<noteq> [] \<Longrightarrow>
   script sv s (Some p) =
     answer_turn sv (length (interview_questions s)) (average_score (results s)) p (say User p s)"
  by (simp add: script_def say_def)






lemma response_distinct:
  "hint_response h \<noteq> early_stop_response"
  "next_question_response q \<noteq> early_stop_response"
  "final_question_response \<noteq> early_stop_response"
  by (simp_all add: hint_response_def next_question_response_def
        final_question_response_def early_stop_response_def)

lemma early_stopped_answer_turn:
  assumes "q_index s < length (interview_questions s)"
  shows "early_stopped (answer_turn sv t a p s) \<longleftrightarrow>
           accepted sv s p \<and> seventy_five_percent_mark t \<le> int (q_index s + 1) \<and> 0 < a \<and> a < 3"
  using assms response_distinct
  by (auto simp add: answer_turn_def early_stopped_def accepted_def current_evaluation_def Let_def)

lemma seventy_five_percent_mark_div:
  "seventy_five_percent_mark t = (3 * int t + 3) div 4"
  unfolding seventy_five_percent_mark_def by linarith

lemma grader_evaluation [simp]:
  "current_evaluation (grader n) s p = \<lparr>score = n, justification = ''ok''\<rparr>"
  by (simp add: current_evaluation_def evaluate_answer_def grader_def Let_def)

subsection \<open>The running average\<close>





subsection \<open>The retry policy\<close>







subsection \<open>The invariant of the session\<close>

lemma new_session_example:
  "new_session INTERVIEW_LENGTH example_bank [4, 0, 1] = Some sampled_session"
  by code_simp

lemma answer_turn_inv:
  assumes "session_inv s"
  shows "session_inv (final (answer_turn sv t a p s))
         \<and> q_index s \<le> q_index (final (answer_turn sv t a p s))
         \<and> q_index (final (answer_turn sv t a p s)) - q_index s
             = length (results (final (answer_turn sv t a p s))) - length (results s)"
  using assms by (simp add: answer_turn_def session_inv_def Let_def)


lemma script_inv:
  assumes "session_inv s"
  shows "session_inv (final (script sv s inp))
         \<and> q_index s \<le> q_index (final (script sv s inp))
         \<and> q_index (final (script sv s inp)) - q_index s
             = length (results (final (script sv s inp))) - length (results s)"
proof (cases "stage s = Interviewing \<and> inp \<noteq> None \<and> inp \<noteq> Some []")
  case True
  then obtain p where p: "inp = Some p" "p \<noteq> []" by auto
  have u: "session_inv (say User p s)"
    using assms by (simp add: session_inv_def)
  show ?thesis
    using True answer_turn_inv [OF u, of sv "length (interview_questions s)" "average_score (results s)" p]
    by (simp add: p script_interviewing)
next
  case False
  then show ?thesis
    using assms
    by (cases "stage s"; cases inp) (auto simp add: script_def Let_def session_inv_def split: option.split)
qed

lemma new_session_inv:
  "new_session n bank draws = Some s0 \<Longrightarrow> session_inv s0"
  by (cases "length bank > n") (auto simp add: new_session_def session_inv_def split: option.splits)

lemma runs_append: "runs s (xs @ ys) = runs (runs s xs) ys"
  by (induction xs arbitrary: s) auto

lemma runs_inv:
  "session_inv s \<Longrightarrow> session_inv (runs s steps) \<and> q_index s \<le> q_index (runs s steps)"
proof (induction steps arbitrary: s)
  case Nil
  then show ?case by simp
next
  case (Cons x steps)
  obtain sv inp where x: "x = (sv, inp)" by (cases x)
  from script_inv [OF Cons.prems, of sv inp]
  have i: "session_inv (final (script sv s inp))" and m: "q_index s \<le> q_index (final (script sv s inp))"
    by simp_all
  from Cons.IH [OF i] m show ?case by (simp add: x)
qed


lemma script_advance:
  "q_index (final (script sv s inp)) \<le> q_index s + 1"
proof (cases "stage s = Interviewing \<and> inp \<noteq> None \<and> inp \<noteq> Some []")
  case True
  then obtain p where p: "inp = Some p" "p \<noteq> []" by auto
  show ?thesis
    using True by (simp add: p script_interviewing answer_turn_def Let_def)
next
  case False
  then show ?thesis
    by (cases "stage s"; cases inp) (auto simp add: script_def Let_def split: option.split)
qed

text \<open>
  C3. In every state a session reaches from its creation through any sequence of runs of
  the script, \<open>q_index\<close> is at most the number of sampled questions and equals the number
  of recorded results. \<open>q_index\<close> never decreases over later runs, and a single run
  advances it by at most 1 and by exactly the number of results it appends.
\<close>

theorem session_invariant:
  assumes "new_session n bank draws = Some s0"
  shows "session_inv (runs s0 steps)
         \<and> q_index (runs s0 steps) \<le> q_index (runs s0 (steps @ later))
         \<and> q_index (final (script sv (runs s0 steps) inp)) - q_index (runs s0 steps)
             = length (results (final (script sv (runs s0 steps) inp))) - length (results (runs s0 steps))
         \<and> q_index (final (script sv (runs s0 steps) inp)) \<le> q_index (runs s0 steps) + 1"
proof -
  have i: "session_inv (runs s0 steps)"
    using runs_inv [OF new_session_inv [OF assms]] by simp
  have m: "q_index (runs s0 steps) \<le> q_index (runs s0 (steps @ later))"
    using runs_inv [OF i, of later] by (simp add: runs_append)
  show ?thesis
    using i m script_inv [OF i, of sv inp] script_advance [of sv "runs s0 steps" inp] by simp
qed

theorem session_invariant_witness:
  "new_session INTERVIEW_LENGTH example_bank [4, 0, 1] = Some sampled_session
   \<and> (session_inv (runs sampled_session [(grader 5, Some ''start''), (grader 4, Some ''by key'')])
      \<and> q_index (runs sampled_session [(grader 5, Some ''start''), (grader 4, Some ''by key'')])
          \<le> q_index (runs sampled_session
                ([(grader 5, Some ''start''), (grader 4, Some ''by key'')] @ [(grader 2, Some ''hm'')]))
      \<and> q_index (final (script (grader 3)
            (runs sampled_session [(grader 5, Some ''start''), (grader 4, Some ''by key'')]) (Some ''rows'')))
          - q_index (runs sampled_session [(grader 5, Some ''start''), (grader 4, Some ''by key'')])
          = length (results (final (script (grader 3)
              (runs sampled_session [(grader 5, Some ''start''), (grader 4, Some ''by key'')]) (Some ''rows''))))
            - length (results (runs sampled_session [(grader 5, Some ''start''), (grader 4, Some ''by key'')]))
      \<and> q_index (final (script (grader 3)
            (runs sampled_session [(grader 5, Some ''start''), (grader 4, Some ''by key'')]) (Some ''rows'')))
          \<le> q_index (runs sampled_session [(grader 5, Some ''start''), (grader 4, Some ''by key'')]) + 1)"
  by (rule conjI [OF new_session_example session_invariant [OF new_session_example]])

subsection \<open>The example sessions\<close>

lemma lower_examples:
  "lower ''Start!'' = ''start!''" "lower ''hello'' = ''hello''" "lower ''start'' = ''start''"
  by code_simp+

lemma two_low_fields:
  "stage two_low = Interviewing" "q_index two_low = 2" "\<not> retry_attempt two_low"
  "results two_low = low_results" "interview_questions two_low = take 3 example_bank"
  "report two_low = None"
  by (simp_all add: two_low_def example_session_def low_results_def example_bank_def script_def
      say_def answer_turn_def evaluate_answer_def grader_def seventy_five_percent_mark_div
      average_score_def lower_examples Let_def)

lemma early_finished_run:
  "script (grader 5) two_low (Some ''with the view tab'')
     = \<lparr>final = two_low\<lparr>stage := Interview_finished, q_index := 3,
            results := low_results
              @ [\<lparr>asked = ''How do you freeze panes?'', answer = ''with the view tab'',
                  evaluation = \<lparr>score = 5, justification = ''ok''\<rparr>\<rparr>],
            messages := messages two_low
              @ [\<lparr>role = User, content = ''with the view tab''\<rparr>,
                 \<lparr>role = Assistant, content = early_stop_response\<rparr>]\<rparr>,
        ending = Rerun,
        calls = [EvalCall (EVALUATION_PROMPT_TEMPLATE ''How do you freeze panes?''
                   ''with the view tab'' ''View tab.'')]\<rparr>"
  by (simp add: script_def two_low_fields say_def answer_turn_def evaluate_answer_def grader_def
      low_results_def example_bank_def seventy_five_percent_mark_div average_score_def Let_def)

lemma early_finished_fields:
  "stage early_finished = Interview_finished" "q_index early_finished = 3"
  "report early_finished = None"
  "scores (results early_finished) = [2, 2, 5]"
  by (simp_all add: early_finished_def early_finished_run two_low_fields scores_def low_results_def)

subsection \<open>The Welcome stage\<close>

text \<open>
  C7, as the code has it. In the Welcome stage, an input whose lower-cased text contains
  "start" moves the stage to Interviewing and appends, after the user's turn, the first
  sampled question, provided there is one; \<open>q_index\<close> stays as it is. Any other input
  leaves the stage and every other field as they are and emits no question, but the
  user's turn is appended to the conversation. No model is called in either case.
\<close>

theorem welcome_start:
  assumes "stage s = Welcome" and "p \<noteq> []"
  shows "(str_in ''start'' (lower p) \<and> interview_questions s \<noteq> [] \<longrightarrow>
            script sv s (Some p)
              = \<lparr>final = s\<lparr>stage := Interviewing,
                            messages := messages s
                              @ [\<lparr>role = User, content = p\<rparr>,
                                 \<lparr>role = Assistant, content = question (hd (interview_questions s))\<rparr>]\<rparr>,
                 ending = Completed, calls = []\<rparr>
            \<and> q_index (final (script sv s (Some p))) = q_index s)
         \<and> (\<not> str_in ''start'' (lower p) \<longrightarrow>
            script sv s (Some p)
              = \<lparr>final = s\<lparr>messages := messages s @ [\<lparr>role = User, content = p\<rparr>]\<rparr>,
                 ending = Completed, calls = []\<rparr>)"
  using assms by (cases "interview_questions s") (simp_all add: script_def say_def Let_def)



theorem welcome_start_witness:
  "stage example_session = Welcome \<and> str_in ''start'' (lower ''Start!'')
   \<and> \<not> str_in ''start'' (lower ''hello'')
   \<and> stage (final (script (grader 5) example_session (Some ''Start!''))) = Interviewing
   \<and> q_index (final (script (grader 5) example_session (Some ''Start!''))) = 0
   \<and> stage (final (script (grader 5) example_session (Some ''hello''))) = Welcome"
proof -
  have h: "stage example_session = Welcome" by (simp add: example_session_def)
  have q: "interview_questions example_session \<noteq> []" "q_index example_session = 0"
    by (simp_all add: example_session_def example_bank_def)
  have y: "str_in ''start'' (lower ''Start!'')" by (simp add: lower_examples)
  have n: "\<not> str_in ''start'' (lower ''hello'')" by (simp add: lower_examples)
  have a: "''Start!'' \<noteq> []" and b: "''hello'' \<noteq> []" by simp_all
  from welcome_start [OF h a, of "grader 5"] y q
  have 1: "stage (final (script (grader 5) example_session (Some ''Start!''))) = Interviewing"
    "q_index (final (script (grader 5) example_session (Some ''Start!''))) = 0"
    by simp_all
  from welcome_start [OF h b, of "grader 5"] n h
  have 2: "stage (final (script (grader 5) example_session (Some ''hello''))) = Welcome"
    by simp
  from h y n 1 2 show ?thesis by simp
qed

text \<open>
  C7 as stated fails: an input without "start" changes the state (the conversation grows by
  the user's turn), and over an empty question file "start" sets the stage to Interviewing
  and then fails on the subscript before any question is emitted.
\<close>

theorem welcome_other_input_counterexample:
  "final (script (grader 5) example_session (Some ''hello'')) \<noteq> example_session
   \<and> messages (final (script (grader 5) example_session (Some ''hello'')))
       = messages example_session @ [\<lparr>role = User, content = ''hello''\<rparr>]
   \<and> script (grader 5) empty_session (Some ''start'')
       = \<lparr>final = empty_session\<lparr>stage := Interviewing,
              messages := messages empty_session @ [\<lparr>role = User, content = ''start''\<rparr>]\<rparr>,
          ending = IndexError, calls = []\<rparr>"
proof -
  have m: "messages (final (script (grader 5) example_session (Some ''hello'')))
       = messages example_session @ [\<lparr>role = User, content = ''hello''\<rparr>]"
    by (simp add: script_def say_def example_session_def lower_examples Let_def)
  then have "final (script (grader 5) example_session (Some ''hello'')) \<noteq> example_session"
    by (metis append_self_conv not_Cons_self2)
  moreover have "script (grader 5) empty_session (Some ''start'')
       = \<lparr>final = empty_session\<lparr>stage := Interviewing,
              messages := messages empty_session @ [\<lparr>role = User, content = ''start''\<rparr>]\<rparr>,
          ending = IndexError, calls = []\<rparr>"
    by (simp add: script_def say_def empty_session_def lower_def lower_char_def Let_def)
  ultimately show ?thesis using m by simp
qed

subsection \<open>The Finished stage\<close>

lemma first_render:
  assumes "stage s = Interview_finished" and "report s = None"
  shows "script sv s inp
           = \<lparr>final = s\<lparr>report := Some (generate_final_report sv (results s))\<rparr>,
              ending = Stop, calls = [ReportCall (report_prompt (results s))]\<rparr>"
  using assms by (simp add: script_def)

lemma reported_eq: "reported = early_finished\<lparr>report := Some ''Report.''\<rparr>"
proof -
  have "ending (script (grader 5) two_low (Some ''with the view tab'')) = Rerun"
    by (simp add: early_finished_run)
  then have "reported = final (script (grader 5) early_finished None)"
    by (simp add: reported_def interaction_def Let_def early_finished_def)
  also have "\<dots> = early_finished
      \<lparr>report := Some (generate_final_report (grader 5) (results early_finished))\<rparr>"
    by (simp add: first_render early_finished_fields)
  also have "generate_final_report (grader 5) (results early_finished) = ''Report.''"
    by (simp add: generate_final_report_def grader_def)
  finally show ?thesis .
qed

lemma reported_fields:
  "stage reported = Interview_finished" "report reported = Some ''Report.''"
  by (simp_all add: reported_eq early_finished_fields)

lemma script_finished:
  assumes "stage s = Interview_finished"
  shows "script sv s inp = script sv s None"
    and "final (script sv s inp)
          = s\<lparr>report := Some (case report s of None \<Rightarrow> generate_final_report sv (results s)
                                | Some r \<Rightarrow> r)\<rparr>"
    and "ending (script sv s inp) = Stop"
  using assms by (simp_all add: script_def split: option.split)

lemma runs_finished:
  assumes "stage s = Interview_finished"
  shows "stage (runs s steps) = Interview_finished
         \<and> (runs s steps)\<lparr>report := report s\<rparr> = s
         \<and> (report s \<noteq> None \<longrightarrow> runs s steps = s)"
  using assms
proof (induction steps arbitrary: s)
  case Nil
  then show ?case by simp
next
  case (Cons x steps)
  obtain sv inp where x: "x = (sv, inp)" by (cases x)
  let ?s' = "final (script sv s inp)"
  have s': "?s' = s\<lparr>report := Some (case report s of None \<Rightarrow> generate_final_report sv (results s)
                                | Some r \<Rightarrow> r)\<rparr>"
    using Cons.prems by (rule script_finished(2))
  have st: "stage ?s' = Interview_finished"
    using Cons.prems by (simp add: s')
  have same: "report s \<noteq> None \<Longrightarrow> ?s' = s"
    by (auto simp add: s')
  from Cons.IH [OF st]
  have ih: "stage (runs ?s' steps) = Interview_finished"
    "(runs ?s' steps)\<lparr>report := report ?s'\<rparr> = ?s'"
    "report ?s' \<noteq> None \<longrightarrow> runs ?s' steps = ?s'"
    by simp_all
  have "(runs ?s' steps)\<lparr>report := report s\<rparr> = ((runs ?s' steps)\<lparr>report := report ?s'\<rparr>)\<lparr>report := report s\<rparr>"
    by simp
  also have "\<dots> = ?s'\<lparr>report := report s\<rparr>"
    by (simp only: ih(2))
  also have "\<dots> = s"
    by (simp add: s')
  finally have unchanged: "(runs ?s' steps)\<lparr>report := report s\<rparr> = s" .
  have "report s \<noteq> None \<longrightarrow> runs ?s' steps = s"
    using ih(3) same by auto
  with ih(1) unchanged show ?case
    by (simp add: x)
qed

text \<open>
  C8. Once the stage is Interview_finished, a run ignores its input (it behaves as the run
  with no input), and the only thing it may change is to fill in the report when none is
  cached. Through any sequence of runs the stage stays Interview_finished and every field
  but the report keeps its value; once the report is cached the state does not change at
  all.
\<close>

theorem finished_is_terminal:
  assumes "stage s = Interview_finished"
  shows "script sv s inp = script sv s None
         \<and> final (script sv s inp)
             = s\<lparr>report := Some (case report s of None \<Rightarrow> generate_final_report sv (results s)
                                   | Some r \<Rightarrow> r)\<rparr>
         \<and> stage (runs s steps) = Interview_finished
         \<and> (runs s steps)\<lparr>report := report s\<rparr> = s
         \<and> (report s \<noteq> None \<longrightarrow> runs s steps = s)"
  using script_finished(1,2) [OF assms, of sv inp] runs_finished [OF assms, of steps]
  by (intro conjI) (elim conjE, assumption)+


theorem finished_is_terminal_witness:
  "stage reported = Interview_finished \<and> report reported \<noteq> None
   \<and> script (grader 1) reported (Some ''one more thing'') = script (grader 1) reported None
   \<and> runs reported [(grader 1, Some ''one more thing''), (broken_grader, None)] = reported"
proof -
  have h: "stage reported = Interview_finished" by (simp add: reported_fields)
  have r: "report reported \<noteq> None" by (simp add: reported_fields)
  note t = finished_is_terminal [OF h, of "grader 1" "Some ''one more thing''"
      "[(grader 1, Some ''one more thing''), (broken_grader, None)]"]
  have a: "script (grader 1) reported (Some ''one more thing'') = script (grader 1) reported None"
    by (rule t [THEN conjunct1])
  have "report reported \<noteq> None \<longrightarrow>
      runs reported [(grader 1, Some ''one more thing''), (broken_grader, None)] = reported"
    by (rule t [THEN conjunct2, THEN conjunct2, THEN conjunct2, THEN conjunct2])
  from this r
  have b: "runs reported [(grader 1, Some ''one more thing''), (broken_grader, None)] = reported"
    by (rule mp)
  from h r a b show ?thesis by (intro conjI)
qed

subsection \<open>The report\<close>









subsection \<open>Failure of the evaluator\<close>







subsection \<open>The sampled questions\<close>

lemma mset_pool_step:
  assumes "pool \<noteq> []" and "j < length pool"
  shows "add_mset (pool ! j) (mset (butlast (pool[j := last pool]))) = mset pool"
proof -
  obtain xs l where pool: "pool = xs @ [l]"
    using assms(1) by (cases pool rule: rev_cases) auto
  show ?thesis
  proof (cases "j < length xs")
    case True
    then have "butlast (pool[j := last pool]) = xs[j := l]"
      by (simp add: pool list_update_append)
    moreover have "pool ! j = xs ! j"
      using True by (simp add: pool nth_append)
    ultimately show ?thesis
      using True by (simp add: pool mset_update)
  next
    case False
    then have "j = length xs" using assms(2) by (simp add: pool)
    then show ?thesis by (simp add: pool)
  qed
qed

lemma length_sample_pool:
  "length (sample_pool pool k draws) = min k (length pool)"
proof (induction k arbitrary: pool draws)
  case 0
  then show ?case by simp
next
  case (Suc k)
  show ?case
  proof (cases "pool = []")
    case True
    then show ?thesis by simp
  next
    case False
    then have pos: "1 \<le> length pool" by (cases pool) simp_all
    have "length (sample_pool pool (Suc k) draws) = Suc (min k (length pool - 1))"
      using False by (simp add: Suc.IH Let_def)
    with pos show ?thesis by arith
  qed
qed

lemma mset_sample_pool:
  "mset (sample_pool pool k draws) \<subseteq># mset pool"
proof (induction k arbitrary: pool draws)
  case 0
  then show ?case by simp
next
  case (Suc k)
  show ?case
  proof (cases "pool = []")
    case True
    then show ?thesis by simp
  next
    case False
    define j where "j = (case draws of [] \<Rightarrow> 0 | d # ds \<Rightarrow> d mod length pool)"
    have j: "j < length pool"
      using False by (simp add: j_def split: list.split)
    have "mset (sample_pool pool (Suc k) draws)
        = add_mset (pool ! j) (mset (sample_pool (butlast (pool[j := last pool])) k (tl draws)))"
      using False by (simp add: j_def Let_def)
    also have "\<dots> \<subseteq># add_mset (pool ! j) (mset (butlast (pool[j := last pool])))"
      using Suc.IH by simp
    also have "\<dots> = mset pool"
      using False j by (rule mset_pool_step)
    finally show ?thesis .
  qed
qed

lemma distinct_sample_pool:
  assumes "distinct pool"
  shows "distinct (sample_pool pool k draws)"
proof -
  have "count (mset (sample_pool pool k draws)) a \<le> 1" for a
  proof -
    have "count (mset (sample_pool pool k draws)) a \<le> count (mset pool) a"
      using mset_sample_pool by (rule mset_subset_eq_count)
    also have "\<dots> \<le> 1"
      using assms by (simp add: distinct_count_atmost_1)
    finally show ?thesis .
  qed
  then show ?thesis
    by (simp add: distinct_count_atmost_1) (metis count_mset_0_iff le_Suc_eq le_zero_eq)
qed

lemma script_questions:
  "interview_questions (final (script sv s inp)) = interview_questions s"
proof (cases "stage s = Interviewing \<and> inp \<noteq> None \<and> inp \<noteq> Some []")
  case True
  then obtain p where p: "inp = Some p" "p \<noteq> []" by auto
  show ?thesis
    using True by (simp add: p script_interviewing answer_turn_def Let_def)
next
  case False
  then show ?thesis
    by (cases "stage s"; cases inp) (auto simp add: script_def Let_def split: option.split)
qed

lemma runs_questions:
  "interview_questions (runs s steps) = interview_questions s"
proof (induction steps arbitrary: s)
  case Nil
  then show ?case by simp
next
  case (Cons x steps)
  obtain sv inp where x: "x = (sv, inp)" by (cases x)
  show ?case by (simp add: x Cons.IH script_questions)
qed


text \<open>
  C9. Creating a session always succeeds. The number of its questions is the smaller of the
  configured interview length and the size of the bank. They are drawn from the bank
  without replacement: as a multiset they are contained in the bank, so that no entry of
  the bank is taken more often than the bank holds it, and when the entries of the bank
  are pairwise different so are the sampled questions. A bank no larger than the
  configured length is taken whole. No run of the script changes the sequence.
\<close>

theorem sampled_questions:
  "\<exists>s0. new_session n bank draws = Some s0
         \<and> length (interview_questions s0) = min n (length bank)
         \<and> mset (interview_questions s0) \<subseteq># mset bank
         \<and> (distinct bank \<longrightarrow> distinct (interview_questions s0))
         \<and> (length bank \<le> n \<longrightarrow> interview_questions s0 = bank)
         \<and> interview_questions (runs s0 steps) = interview_questions s0"
proof (cases "n < length bank")
  case True
  let ?qs = "sample_pool bank n draws"
  let ?s0 = "\<lparr>stage = Welcome, q_index = 0, results = [], retry_attempt = False,
              interview_questions = ?qs,
              messages = [\<lparr>role = Assistant, content = welcome_message (length ?qs)\<rparr>],
              report = None\<rparr>"
  have "new_session n bank draws = Some ?s0"
    using True by (simp add: new_session_def random_sample_def)
  moreover have "length (interview_questions ?s0) = min n (length bank)"
    by (simp add: length_sample_pool)
  moreover have "mset (interview_questions ?s0) \<subseteq># mset bank"
    by (simp add: mset_sample_pool)
  moreover have "distinct bank \<longrightarrow> distinct (interview_questions ?s0)"
    by (simp add: distinct_sample_pool)
  moreover have "length bank \<le> n \<longrightarrow> interview_questions ?s0 = bank"
    using True by simp
  moreover have "interview_questions (runs ?s0 steps) = interview_questions ?s0"
    by (rule runs_questions)
  ultimately show ?thesis by blast
next
  case False
  let ?s0 = "\<lparr>stage = Welcome, q_index = 0, results = [], retry_attempt = False,
              interview_questions = bank,
              messages = [\<lparr>role = Assistant, content = welcome_message (length bank)\<rparr>],
              report = None\<rparr>"
  have "new_session n bank draws = Some ?s0"
    using False by (simp add: new_session_def)
  moreover have "length (interview_questions ?s0) = min n (length bank)"
    using False by simp
  moreover have "interview_questions (runs ?s0 steps) = interview_questions ?s0"
    by (rule runs_questions)
  ultimately show ?thesis by (intro exI [of _ ?s0]) simp
qed

theorem sampled_questions_witness:
  "distinct example_bank \<and> length example_bank = 5 \<and> INTERVIEW_LENGTH = 3
   \<and> (\<exists>s0. new_session INTERVIEW_LENGTH example_bank [4, 0, 1] = Some s0
         \<and> length (interview_questions s0) = 3
         \<and> distinct (interview_questions s0)
         \<and> interview_questions (runs s0 [(grader 5, Some ''start''), (grader 4, Some ''by key'')])
             = interview_questions s0)"
proof -
  have d: "distinct example_bank" by (simp add: example_bank_def)
  have l: "length example_bank = 5" by (simp add: example_bank_def)
  have n: "INTERVIEW_LENGTH = 3" by (simp add: INTERVIEW_LENGTH_def)
  from sampled_questions [of INTERVIEW_LENGTH example_bank "[4, 0, 1]"
      "[(grader 5, Some ''start''), (grader 4, Some ''by key'')]"]
  obtain s0 where s0: "new_session INTERVIEW_LENGTH example_bank [4, 0, 1] = Some s0"
    "length (interview_questions s0) = min INTERVIEW_LENGTH (length example_bank)"
    "distinct example_bank \<longrightarrow> distinct (interview_questions s0)"
    "interview_questions (runs s0 [(grader 5, Some ''start''), (grader 4, Some ''by key'')])
       = interview_questions s0"
    by blast
  have "length (interview_questions s0) = 3" using s0(2) by (simp add: l n)
  moreover have "distinct (interview_questions s0)" using s0(3) d by (rule mp)
  ultimately show ?thesis using d l n s0(1) s0(4) by blast
qed

subsection \<open>The early stop\<close>

lemma early_stopped_script:
  assumes "stage s = Interviewing" and "p \<noteq> []"
  shows "early_stopped (script sv s (Some p)) \<longleftrightarrow>
           q_index s < length (interview_questions s) \<and> accepted sv s p
           \<and> seventy_five_percent_mark (length (interview_questions s)) \<le> int (q_index s + 1)
           \<and> 0 < average_score (results s) \<and> average_score (results s) < 3"
proof (cases "q_index s < length (interview_questions s)")
  case True
  then have "q_index (say User p s) < length (interview_questions (say User p s))" by simp
  from early_stopped_answer_turn [OF this, of sv _ _ p] True assms show ?thesis
    by (simp add: script_interviewing accepted_def)
next
  case False
  then show ?thesis
    using assms by (simp add: script_interviewing answer_turn_def early_stopped_def)
qed

lemma new_session_small_bank:
  "new_session INTERVIEW_LENGTH (take 3 example_bank) [] = Some example_session"
  by code_simp

lemma early_stop_state:
  assumes "stage s = Interviewing" and "p \<noteq> []"
    and "early_stopped (script sv s (Some p))"
  shows "final (script sv s (Some p))
      = s\<lparr>stage := Interview_finished, q_index := q_index s + 1,
          results := results s
            @ [\<lparr>asked = question (interview_questions s ! q_index s), answer = p,
                evaluation = current_evaluation sv s p\<rparr>],
          retry_attempt := False,
          messages := messages s
            @ [\<lparr>role = User, content = p\<rparr>, \<lparr>role = Assistant, content = early_stop_response\<rparr>]\<rparr>"
proof -
  from assms have c: "q_index s < length (interview_questions s)" "accepted sv s p"
    "seventy_five_percent_mark (length (interview_questions s)) \<le> int (q_index s + 1)"
    "0 < average_score (results s)" "average_score (results s) < 3"
    by (simp_all add: early_stopped_script)
  then show ?thesis
    using assms(1,2)
    by (auto simp add: script_interviewing answer_turn_def accepted_def current_evaluation_def
        say_def Let_def)
qed

lemma completion_state:
  assumes "q_index s + 1 = t" and "q_index s < length (interview_questions s)"
    and "accepted sv s p"
  shows "final (answer_turn sv t 0 p (say User p s))
      = s\<lparr>stage := Interview_finished, q_index := q_index s + 1,
          results := results s
            @ [\<lparr>asked = question (interview_questions s ! q_index s), answer = p,
                evaluation = current_evaluation sv s p\<rparr>],
          retry_attempt := False,
          messages := messages s
            @ [\<lparr>role = User, content = p\<rparr>, \<lparr>role = Assistant, content = final_question_response\<rparr>]\<rparr>"
  using assms
  by (auto simp add: answer_turn_def accepted_def current_evaluation_def say_def Let_def)


lemma new_session_length:
  "new_session n bank draws = Some s0 \<Longrightarrow> length (interview_questions s0) = min n (length bank)"
  by (cases "n < length bank")
     (auto simp add: new_session_def random_sample_def length_sample_pool)

lemma mark_of_three: "seventy_five_percent_mark 3 = 3"
  by (simp add: seventy_five_percent_mark_div)

text \<open>
  C10. With the interview length 3 of the script and a bank of at least 3 questions, every
  session has 3 questions and the early-stop mark equals that number. So whenever a run
  takes the early-stop branch, \<open>q_index\<close> has reached the number of questions: no
  question is left unasked. The state the run leaves is the one the same turn leaves by
  completing the interview (the turn taken with average 0, which cannot stop early) in
  every field but the closing message.
\<close>

theorem early_stop_skips_nothing:
  assumes "3 \<le> length bank" and "new_session INTERVIEW_LENGTH bank draws = Some s0"
    and "s = runs s0 steps"
    and "stage s = Interviewing" and "p \<noteq> []"
    and "early_stopped (script sv s (Some p))"
  shows "length (interview_questions s) = 3
         \<and> seventy_five_percent_mark (length (interview_questions s))
             = int (length (interview_questions s))
         \<and> q_index (final (script sv s (Some p))) = length (interview_questions s)
         \<and> final (script sv s (Some p))
             = s\<lparr>stage := Interview_finished, q_index := q_index s + 1,
                 results := results s
                   @ [\<lparr>asked = question (interview_questions s ! q_index s), answer = p,
                       evaluation = current_evaluation sv s p\<rparr>],
                 retry_attempt := False,
                 messages := messages s
                   @ [\<lparr>role = User, content = p\<rparr>,
                      \<lparr>role = Assistant, content = early_stop_response\<rparr>]\<rparr>
         \<and> final (answer_turn sv (length (interview_questions s)) 0 p (say User p s))
             = s\<lparr>stage := Interview_finished, q_index := q_index s + 1,
                 results := results s
                   @ [\<lparr>asked = question (interview_questions s ! q_index s), answer = p,
                       evaluation = current_evaluation sv s p\<rparr>],
                 retry_attempt := False,
                 messages := messages s
                   @ [\<lparr>role = User, content = p\<rparr>,
                      \<lparr>role = Assistant, content = final_question_response\<rparr>]\<rparr>"
proof -
  have "length (interview_questions s0) = min INTERVIEW_LENGTH (length bank)"
    using assms(2) by (rule new_session_length)
  with assms(1) have "length (interview_questions s0) = 3"
    by (simp add: INTERVIEW_LENGTH_def)
  then have len: "length (interview_questions s) = 3"
    by (simp add: assms(3) runs_questions)
  from assms(4-6) have c: "q_index s < length (interview_questions s)" "accepted sv s p"
    "seventy_five_percent_mark (length (interview_questions s)) \<le> int (q_index s + 1)"
    by (simp_all add: early_stopped_script)
  have mark: "seventy_five_percent_mark (length (interview_questions s))
      = int (length (interview_questions s))"
    by (simp add: len mark_of_three)
  have last: "q_index s + 1 = length (interview_questions s)"
    using c(1,3) by (simp add: mark)
  note st = early_stop_state [OF assms(4-6)]
  have q: "q_index (final (script sv s (Some p))) = length (interview_questions s)"
    by (simp add: st last [symmetric])
  note nat = completion_state [OF last c(1,2)]
  from len mark q st nat show ?thesis by (intro conjI)
qed

theorem early_stop_skips_nothing_witness:
  "3 \<le> length (take 3 example_bank)
   \<and> new_session INTERVIEW_LENGTH (take 3 example_bank) [] = Some example_session
   \<and> stage two_low = Interviewing
   \<and> early_stopped (script (grader 5) two_low (Some ''with the view tab''))
   \<and> q_index (final (script (grader 5) two_low (Some ''with the view tab''))) = 3
   \<and> length (interview_questions two_low) = 3"
proof -
  have h1: "3 \<le> length (take 3 example_bank)"
    by (simp add: example_bank_def)
  have h3: "two_low = runs example_session
       [(grader 5, Some ''start''),
        (grader 2, Some ''a lookup''), (grader 2, Some ''a vertical lookup''),
        (grader 2, Some ''a table''), (grader 2, Some ''a summary table'')]"
    by (rule two_low_def)
  have h4: "stage two_low = Interviewing" "''with the view tab'' \<noteq> []"
    "early_stopped (script (grader 5) two_low (Some ''with the view tab''))"
    by (simp_all add: two_low_fields early_finished_run early_stopped_def)
  note t = early_stop_skips_nothing [OF h1 new_session_small_bank h3 h4]
  have a: "length (interview_questions two_low) = 3"
    by (rule t [THEN conjunct1])
  have "q_index (final (script (grader 5) two_low (Some ''with the view tab'')))
      = length (interview_questions two_low)"
    by (rule t [THEN conjunct2, THEN conjunct2, THEN conjunct1])
  then have b: "q_index (final (script (grader 5) two_low (Some ''with the view tab''))) = 3"
    by (simp only: a)
  from h1 new_session_small_bank h4(1,3) b a show ?thesis by (intro conjI)
qed

text \<open>
  C1, on the code: the script takes the early-stop branch after an accepted answer exactly
  when the advanced \<open>q_index\<close> has reached the mark and the average lies strictly between
  0 and 3 (lemma \<open>early_stopped_script\<close>), but the average it tests is the one computed at
  the top of the run, over the results recorded before the accepted answer. In a session of
  three questions whose first two answers were recorded with score 2, a third answer with
  score 5 is accepted and the run stops early, although the average over all three recorded
  results is exactly 3.
\<close>

theorem early_stop_stale_average:
  "stage two_low = Interviewing \<and> scores (results two_low) = [2, 2]
   \<and> score (current_evaluation (grader 5) two_low ''with the view tab'') = 5
   \<and> early_stopped (script (grader 5) two_low (Some ''with the view tab''))
   \<and> scores (results (final (script (grader 5) two_low (Some ''with the view tab'')))) = [2, 2, 5]
   \<and> average_score (results (final (script (grader 5) two_low (Some ''with the view tab'')))) = 3
   \<and> average_score (results two_low) = 2"
  by (simp add: early_finished_run early_stopped_def two_low_fields scores_def
      low_results_def average_score_def)

end
